theory Spec2Isabelle
  imports Main "HOL-Library.Code_Target_Numeral"
begin

section \<open>Data model of the services layer\<close>

text \<open>
  The entities of the services layer (\<^verbatim>\<open>api.d.ts\<close>): every table row extends
  \<^verbatim>\<open>BaseEntity\<close>. Identifiers are the values of \<^verbatim>\<open>uuidv4()\<close>; they are drawn from a
  supply that never repeats. Timestamps are milliseconds since the epoch (the value of
  \<^verbatim>\<open>Date.now()\<close>); the ISO strings the code stores are these instants.
\<close>

type_synonym uuid = nat
type_synonym timestamp = nat

datatype Gender = MALE | FEMALE | OTHER

datatype Role = ADMIN | INSTRUCTOR | STUDENT | HR | SUPPORT

text \<open>The string values of the \<^verbatim>\<open>Role\<close> enum, as they appear in token payloads and requests.\<close>

fun role_value :: "Role \<Rightarrow> string" where
  "role_value ADMIN = ''admin''"
| "role_value INSTRUCTOR = ''instructor''"
| "role_value STUDENT = ''student''"
| "role_value HR = ''hr''"
| "role_value SUPPORT = ''support''"

text \<open>
  \<^verbatim>\<open>bcrypt.hash\<close> and \<^verbatim>\<open>bcrypt.compare\<close> of \<^verbatim>\<open>bcryptjs\<close>: only the first 72 bytes of a
  password enter its hash. A hash is compared successfully with every password that has
  the same first 72 bytes as the one it was made from, and with no other.
\<close>

datatype password_hash = Bcrypt string

definition bcrypt_hash :: "string \<Rightarrow> password_hash" where
  "bcrypt_hash password = Bcrypt (take 72 password)"

definition bcrypt_compare :: "string \<Rightarrow> password_hash \<Rightarrow> bool" where
  "bcrypt_compare password h = (h = Bcrypt (take 72 password))"

text \<open>
  \<^verbatim>\<open>jwt.sign(payload, secret, { expiresIn })\<close> of the \<^verbatim>\<open>jsonwebtoken\<close> package adds the
  claims \<^verbatim>\<open>iat = floor(Date.now() / 1000)\<close> and \<^verbatim>\<open>exp = iat + lifetime\<close> to the payload and
  signs header and payload with HMAC-SHA256. The signed string is a function of the secret,
  the payload and these two claims, and of nothing else: a token is modelled as exactly
  this data. Any other string a client may send is \<open>Opaque\<close>.
\<close>

datatype secret = JWT_SECRET | JWT_REFRESH_SECRET

datatype token = Jwt secret uuid string Role nat nat | Opaque string

definition jwt_sign :: "uuid \<times> string \<times> Role \<Rightarrow> secret \<Rightarrow> nat \<Rightarrow> timestamp \<Rightarrow> token" where
  "jwt_sign payload key lifetime now =
     (case payload of (i, e, r) \<Rightarrow> Jwt key i e r (now div 1000) (now div 1000 + lifetime))"

record BaseEntity =
  id' :: uuid
  createdAt :: timestamp
  updatedAt :: timestamp
  deletedAt :: "timestamp option"

record User = BaseEntity +
  name :: string
  email :: string
  passwordHash :: password_hash
  phoneNumber :: string
  dateOfBirth :: string
  country :: string
  gender :: Gender
  role :: Role
  profilePictureUrl :: "string option"
  enrolledCourseIds :: "uuid list"
  isBlocked :: bool
  assignedHrId :: "uuid option"

record RefreshToken = BaseEntity +
  userId :: uuid
  token :: token
  expiresAt :: int

text \<open>An activity log row; its free-form \<^verbatim>\<open>details\<close> object is left out.\<close>

record ActivityLog = BaseEntity +
  log_userId :: uuid
  action :: string
  resourceType :: string
  resourceId :: "uuid option"

record UserDTO =
  dto_id :: uuid
  dto_name :: string
  dto_email :: string
  dto_phoneNumber :: string
  dto_dateOfBirth :: string
  dto_country :: string
  dto_gender :: Gender
  dto_role :: Role
  dto_profilePictureUrl :: "string option"
  dto_isBlocked :: bool
  dto_createdAt :: timestamp
  dto_updatedAt :: timestamp
  dto_assignedHrId :: "uuid option"

text \<open>
  The errors the services throw, named after their messages:
  \<^item> \<open>UserAlreadyExists\<close>: \<^verbatim>\<open>User already exists with this email\<close> (the specification's DuplicateCredential);
  \<^item> \<open>PasswordTooShort\<close>: \<^verbatim>\<open>Password must be at least 8 characters long\<close> (WeakCredential);
  \<^item> \<open>InvalidCredentials\<close>: \<^verbatim>\<open>Invalid credentials\<close> (InvalidCredential);
  \<^item> \<open>AccountIsBlocked\<close>: \<^verbatim>\<open>Account is blocked\<close> (AccountBlocked);
  \<^item> \<open>InvalidRefreshToken\<close>: \<^verbatim>\<open>Invalid refresh token\<close> (TokenInvalid);
  \<^item> \<open>RefreshTokenExpired\<close>: \<^verbatim>\<open>Refresh token expired\<close> (TokenExpired);
  \<^item> \<open>UserNotFound\<close>: \<^verbatim>\<open>User not found\<close>;
  \<^item> \<open>FailedToCreate t\<close>, \<open>FailedToUpdate t\<close>: the storage layer refused a write to table \<open>t\<close>.
\<close>

datatype error =
    UserAlreadyExists
  | PasswordTooShort
  | InvalidCredentials
  | AccountIsBlocked
  | InvalidRefreshToken
  | RefreshTokenExpired
  | UserNotFound
  | FailedToCreate string
  | FailedToUpdate string

text \<open>
  The local time zone of the host the services run on, as the \<^verbatim>\<open>Date\<close> object sees it:
  \<open>LocalTZA_utc z t\<close> is the offset from UTC, in milliseconds, in effect at the instant
  \<open>t\<close> (the language's \<^verbatim>\<open>LocalTZA(t, true)\<close>), and \<open>LocalTZA_local z t\<close> the offset in effect
  at the local wall-clock time \<open>t\<close> (\<^verbatim>\<open>LocalTZA(t, false)\<close>).
\<close>

record TimeZone =
  LocalTZA_utc :: "int \<Rightarrow> int"
  LocalTZA_local :: "int \<Rightarrow> int"

definition LocalTime :: "TimeZone \<Rightarrow> int \<Rightarrow> int" where
  "LocalTime z t = t + LocalTZA_utc z t"

definition UTC :: "TimeZone \<Rightarrow> int \<Rightarrow> int" where
  "UTC z t = t - LocalTZA_local z t"

definition msPerDay :: int where
  "msPerDay = 86400000"

text \<open>
  \<^verbatim>\<open>d = new Date(); d.setDate(d.getDate() + 7)\<close>: the local time of now is taken, the day
  of the month is raised by seven with the time within the day kept (\<^verbatim>\<open>MakeDay\<close> carries an
  overflow into the next month, so the local time value grows by seven times
  \<^verbatim>\<open>msPerDay\<close>), and the result is read back as a local wall-clock time.
\<close>

definition setDate_plus_7 :: "TimeZone \<Rightarrow> timestamp \<Rightarrow> int" where
  "setDate_plus_7 z now = UTC z (LocalTime z (int now) + 7 * msPerDay)"

text \<open>
  The world of the services: the three tables the authentication flows touch, the Redis
  cache (entries under the keys \<^verbatim>\<open>user:<id>\<close>, each with the instant it expires), the
  identifier supply, and the time zone of the host.
\<close>

record State =
  users :: "User list"
  refresh_tokens :: "RefreshToken list"
  activity_logs :: "ActivityLog list"
  redis :: "uuid \<rightharpoonup> (User \<times> timestamp)"
  uuid_next :: uuid
  host_zone :: TimeZone

definition uuidv4 :: "State \<Rightarrow> uuid \<times> State" where
  "uuidv4 s = (uuid_next s, s\<lparr>uuid_next := Suc (uuid_next s)\<rparr>)"

section \<open>Repositories\<close>

text \<open>
  \<^verbatim>\<open>.single()\<close> of the storage client yields the row when the query matches exactly one,
  and the error \<^verbatim>\<open>PGRST116\<close> (which the finders turn into \<^verbatim>\<open>null\<close>) otherwise.
\<close>

definition single :: "'a list \<Rightarrow> 'a option" where
  "single rows = (case rows of [] \<Rightarrow> None | r # rest \<Rightarrow> (case rest of [] \<Rightarrow> Some r | _ # _ \<Rightarrow> None))"

definition findById :: "State \<Rightarrow> uuid \<Rightarrow> bool \<Rightarrow> User option" where
  "findById s i includeDeleted =
     single (filter (\<lambda>u. id' u = i \<and> (includeDeleted \<or> deletedAt u = None)) (users s))"

definition findByEmail :: "State \<Rightarrow> string \<Rightarrow> User option" where
  "findByEmail s e = single (filter (\<lambda>u. email u = e \<and> deletedAt u = None) (users s))"

text \<open>
  \<^verbatim>\<open>BaseRepository.create\<close> on the users table: a fresh id, both timestamps set to now,
  \<^verbatim>\<open>deletedAt\<close> null. The table's \<^verbatim>\<open>email ... UNIQUE\<close> constraint refuses a row whose email
  is already present in any row, soft-deleted or not.
\<close>

definition userRepo_create :: "State \<Rightarrow> timestamp \<Rightarrow> User \<Rightarrow> (error + User) \<times> State" where
  "userRepo_create s now data =
     (case uuidv4 s of (i, s1) \<Rightarrow>
        let entity = data\<lparr>id' := i, createdAt := now, updatedAt := now, deletedAt := None\<rparr>
        in if email entity \<in> set (map email (users s1))
           then (Inl (FailedToCreate ''users''), s1)
           else (Inr entity, s1\<lparr>users := users s1 @ [entity]\<rparr>))"

text \<open>
  \<^verbatim>\<open>BaseRepository.update\<close> on the users table: every non-deleted row with the id is
  changed; the call returns the row when exactly one was, and throws otherwise.
\<close>

definition userRepo_update :: "State \<Rightarrow> timestamp \<Rightarrow> uuid \<Rightarrow> (User \<Rightarrow> User) \<Rightarrow> (error + User) \<times> State" where
  "userRepo_update s now i f =
     (let hit = (\<lambda>u. id' u = i \<and> deletedAt u = None);
          change = (\<lambda>u. (f u)\<lparr>updatedAt := now\<rparr>);
          s1 = s\<lparr>users := map (\<lambda>u. if hit u then change u else u) (users s)\<rparr>
      in case single (filter hit (users s)) of
           None \<Rightarrow> (Inl (FailedToUpdate ''users''), s1)
         | Some u \<Rightarrow> (Inr (change u), s1))"

definition softDelete :: "State \<Rightarrow> timestamp \<Rightarrow> uuid \<Rightarrow> bool \<times> State" where
  "softDelete s now i =
     (True, s\<lparr>users := map (\<lambda>u. if id' u = i \<and> deletedAt u = None
                                   then u\<lparr>deletedAt := Some now, updatedAt := now\<rparr> else u) (users s)\<rparr>)"

definition restore :: "State \<Rightarrow> timestamp \<Rightarrow> uuid \<Rightarrow> bool \<times> State" where
  "restore s now i =
     (True, s\<lparr>users := map (\<lambda>u. if id' u = i \<and> deletedAt u \<noteq> None
                                   then u\<lparr>deletedAt := None, updatedAt := now\<rparr> else u) (users s)\<rparr>)"

definition userRepo_blockUser :: "State \<Rightarrow> timestamp \<Rightarrow> uuid \<Rightarrow> (error + bool) \<times> State" where
  "userRepo_blockUser s now i =
     (case userRepo_update s now i (\<lambda>u. u\<lparr>isBlocked := True\<rparr>) of
        (Inl e, s1) \<Rightarrow> (Inl e, s1)
      | (Inr u, s1) \<Rightarrow> (Inr True, s1))"

definition userRepo_unblockUser :: "State \<Rightarrow> timestamp \<Rightarrow> uuid \<Rightarrow> (error + bool) \<times> State" where
  "userRepo_unblockUser s now i =
     (case userRepo_update s now i (\<lambda>u. u\<lparr>isBlocked := False\<rparr>) of
        (Inl e, s1) \<Rightarrow> (Inl e, s1)
      | (Inr u, s1) \<Rightarrow> (Inr True, s1))"

text \<open>
  \<^verbatim>\<open>RefreshTokenRepository\<close>: \<^verbatim>\<open>findByToken\<close> selects on the token value alone;
  \<^verbatim>\<open>invalidateToken\<close> deletes every row with the value and returns true;
  \<^verbatim>\<open>create\<close> is refused by the table's \<^verbatim>\<open>token ... UNIQUE\<close> constraint when the value
  is already stored.
\<close>

definition findByToken :: "State \<Rightarrow> token \<Rightarrow> RefreshToken option" where
  "findByToken s v = single (filter (\<lambda>r. token r = v) (refresh_tokens s))"

definition invalidateToken :: "State \<Rightarrow> token \<Rightarrow> bool \<times> State" where
  "invalidateToken s v = (True, s\<lparr>refresh_tokens := filter (\<lambda>r. token r \<noteq> v) (refresh_tokens s)\<rparr>)"

definition refreshTokenRepo_create ::
  "State \<Rightarrow> timestamp \<Rightarrow> uuid \<Rightarrow> token \<Rightarrow> int \<Rightarrow> (error + RefreshToken) \<times> State" where
  "refreshTokenRepo_create s now uid v exp =
     (case uuidv4 s of (i, s1) \<Rightarrow>
        let entity = \<lparr>id' = i, createdAt = now, updatedAt = now, deletedAt = None,
                      userId = uid, token = v, expiresAt = exp\<rparr>
        in if v \<in> set (map token (refresh_tokens s1))
           then (Inl (FailedToCreate ''refresh_tokens''), s1)
           else (Inr entity, s1\<lparr>refresh_tokens := refresh_tokens s1 @ [entity]\<rparr>))"

definition activityLogRepo_log ::
  "State \<Rightarrow> timestamp \<Rightarrow> uuid \<Rightarrow> string \<Rightarrow> string \<Rightarrow> uuid option \<Rightarrow> State" where
  "activityLogRepo_log s now uid act rtype rid =
     (case uuidv4 s of (i, s1) \<Rightarrow>
        s1\<lparr>activity_logs := activity_logs s1 @
             [\<lparr>id' = i, createdAt = now, updatedAt = now, deletedAt = None,
               log_userId = uid, action = act, resourceType = rtype, resourceId = rid\<rparr>]\<rparr>)"

section \<open>Cache service\<close>

text \<open>
  \<^verbatim>\<open>CacheService\<close> over Redis: \<^verbatim>\<open>set\<close> stores the serialised value with a time to live
  in seconds, \<^verbatim>\<open>get\<close> returns the value while the entry has not expired, \<^verbatim>\<open>del\<close> removes it.
\<close>

definition cache_get :: "State \<Rightarrow> timestamp \<Rightarrow> uuid \<Rightarrow> User option" where
  "cache_get s now k =
     (case redis s k of None \<Rightarrow> None | Some (v, expiry) \<Rightarrow> if now < expiry then Some v else None)"

definition cache_set :: "State \<Rightarrow> timestamp \<Rightarrow> uuid \<Rightarrow> User \<Rightarrow> nat \<Rightarrow> State" where
  "cache_set s now k v ttl = s\<lparr>redis := (redis s)(k \<mapsto> (v, now + ttl * 1000))\<rparr>"

definition cache_del :: "State \<Rightarrow> uuid \<Rightarrow> State" where
  "cache_del s k = s\<lparr>redis := (redis s)(k := None)\<rparr>"

section \<open>Auth service\<close>

text \<open>
  Every operation takes the state and the reading of the clock at the call, and returns
  its result (the thrown error on the left) together with the state it leaves. A write made
  before an error is thrown stays made.
\<close>

record AuthResult =
  res_user :: UserDTO
  res_accessToken :: token
  res_refreshToken :: token

definition toDTO :: "User \<Rightarrow> UserDTO" where
  "toDTO u = \<lparr>dto_id = id' u, dto_name = name u, dto_email = email u,
              dto_phoneNumber = phoneNumber u, dto_dateOfBirth = dateOfBirth u,
              dto_country = country u, dto_gender = gender u, dto_role = role u,
              dto_profilePictureUrl = profilePictureUrl u, dto_isBlocked = isBlocked u,
              dto_createdAt = createdAt u, dto_updatedAt = updatedAt u,
              dto_assignedHrId = assignedHrId u\<rparr>"

definition validatePassword :: "string \<Rightarrow> bool" where
  "validatePassword password = (length password \<ge> 8)"

text \<open>
  The token lifetimes are the defaults \<^verbatim>\<open>'1h'\<close> and \<^verbatim>\<open>'7d'\<close>, in seconds. The stored
  record expires at \<^verbatim>\<open>setDate(getDate() + 7)\<close> of now, taken in the time zone of the host.
\<close>

definition JWT_EXPIRES_IN :: nat where
  "JWT_EXPIRES_IN = 3600"

definition JWT_REFRESH_EXPIRES_IN :: nat where
  "JWT_REFRESH_EXPIRES_IN = 7 * 24 * 3600"

definition generateTokens :: "State \<Rightarrow> timestamp \<Rightarrow> User \<Rightarrow> (error + AuthResult) \<times> State" where
  "generateTokens s now u =
     (let payload = (id' u, email u, role u);
          accessToken = jwt_sign payload JWT_SECRET JWT_EXPIRES_IN now;
          refreshTokenValue = jwt_sign payload JWT_REFRESH_SECRET JWT_REFRESH_EXPIRES_IN now;
          expiry = setDate_plus_7 (host_zone s) now
      in case refreshTokenRepo_create s now (id' u) refreshTokenValue expiry of
           (Inl e, s1) \<Rightarrow> (Inl e, s1)
         | (Inr r, s1) \<Rightarrow>
             (Inr \<lparr>res_user = toDTO u, res_accessToken = accessToken,
                   res_refreshToken = refreshTokenValue\<rparr>, s1))"

definition register ::
  "State \<Rightarrow> timestamp \<Rightarrow> string \<Rightarrow> string \<Rightarrow> string \<Rightarrow> string \<Rightarrow> Role \<Rightarrow> (error + AuthResult) \<times> State" where
  "register s now nm em password phone rl =
     (case findByEmail s em of
        Some existingUser \<Rightarrow> (Inl UserAlreadyExists, s)
      | None \<Rightarrow>
          if \<not> validatePassword password then (Inl PasswordTooShort, s)
          else
            (case userRepo_create s now
                    \<lparr>id' = 0, createdAt = 0, updatedAt = 0, deletedAt = None,
                     name = nm, email = em, passwordHash = bcrypt_hash password,
                     phoneNumber = phone, dateOfBirth = [], country = [], gender = OTHER,
                     role = rl, profilePictureUrl = None, enrolledCourseIds = [],
                     isBlocked = False, assignedHrId = None\<rparr> of
               (Inl e, s1) \<Rightarrow> (Inl e, s1)
             | (Inr u, s1) \<Rightarrow>
                 (case generateTokens s1 now u of
                    (Inl e, s2) \<Rightarrow> (Inl e, s2)
                  | (Inr tokens, s2) \<Rightarrow>
                      (Inr tokens, activityLogRepo_log s2 now (id' u) ''register'' ''user'' (Some (id' u))))))"

definition login :: "State \<Rightarrow> timestamp \<Rightarrow> string \<Rightarrow> string \<Rightarrow> (error + AuthResult) \<times> State" where
  "login s now em password =
     (case findByEmail s em of
        None \<Rightarrow> (Inl InvalidCredentials, s)
      | Some u \<Rightarrow>
          if isBlocked u then (Inl AccountIsBlocked, s)
          else if \<not> bcrypt_compare password (passwordHash u) then (Inl InvalidCredentials, s)
          else
            (case generateTokens s now u of
               (Inl e, s1) \<Rightarrow> (Inl e, s1)
             | (Inr tokens, s1) \<Rightarrow>
                 (Inr tokens, activityLogRepo_log s1 now (id' u) ''login'' ''user'' (Some (id' u)))))"

definition refreshToken :: "State \<Rightarrow> timestamp \<Rightarrow> token \<Rightarrow> (error + AuthResult) \<times> State" where
  "refreshToken s now v =
     (case findByToken s v of
        None \<Rightarrow> (Inl InvalidRefreshToken, s)
      | Some tokenRecord \<Rightarrow>
          if expiresAt tokenRecord < int now
          then (Inl RefreshTokenExpired, snd (invalidateToken s v))
          else
            (case findById s (userId tokenRecord) False of
               None \<Rightarrow> (Inl UserNotFound, s)
             | Some u \<Rightarrow> generateTokens (snd (invalidateToken s v)) now u))"

definition logout :: "State \<Rightarrow> token \<Rightarrow> bool \<times> State" where
  "logout s v = invalidateToken s v"

section \<open>User service\<close>

text \<open>The cache entry of an identity lives for 3600 seconds.\<close>

definition getUserById :: "State \<Rightarrow> timestamp \<Rightarrow> uuid \<Rightarrow> (error + UserDTO) \<times> State" where
  "getUserById s now i =
     (case cache_get s now i of
        Some u \<Rightarrow> (Inr (toDTO u), s)
      | None \<Rightarrow>
          (case findById s i False of
             None \<Rightarrow> (Inl UserNotFound, s)
           | Some u \<Rightarrow> (Inr (toDTO u), cache_set s now i u 3600)))"

definition blockUser :: "State \<Rightarrow> timestamp \<Rightarrow> uuid \<Rightarrow> (error + bool) \<times> State" where
  "blockUser s now i =
     (case userRepo_blockUser s now i of
        (Inl e, s1) \<Rightarrow> (Inl e, s1)
      | (Inr result, s1) \<Rightarrow>
          if result
          then (Inr result, activityLogRepo_log (cache_del s1 i) now i ''block_user'' ''user'' (Some i))
          else (Inr result, s1))"

definition unblockUser :: "State \<Rightarrow> timestamp \<Rightarrow> uuid \<Rightarrow> (error + bool) \<times> State" where
  "unblockUser s now i =
     (case userRepo_unblockUser s now i of
        (Inl e, s1) \<Rightarrow> (Inl e, s1)
      | (Inr result, s1) \<Rightarrow>
          if result
          then (Inr result, activityLogRepo_log (cache_del s1 i) now i ''unblock_user'' ''user'' (Some i))
          else (Inr result, s1))"

definition softDeleteUser :: "State \<Rightarrow> timestamp \<Rightarrow> uuid \<Rightarrow> bool \<times> State" where
  "softDeleteUser s now i =
     (case softDelete s now i of
        (result, s1) \<Rightarrow>
          if result
          then (result, activityLogRepo_log (cache_del s1 i) now i ''soft_delete_user'' ''user'' (Some i))
          else (result, s1))"

definition restoreUser :: "State \<Rightarrow> timestamp \<Rightarrow> uuid \<Rightarrow> bool \<times> State" where
  "restoreUser s now i =
     (case restore s now i of
        (result, s1) \<Rightarrow>
          if result
          then (result, activityLogRepo_log (cache_del s1 i) now i ''restore_user'' ''user'' (Some i))
          else (result, s1))"

section \<open>Request pipeline: token resolution and the role check\<close>

text \<open>
  What the JWT strategy attaches to the request as \<^verbatim>\<open>req.user\<close>. The role travels as the
  enum's string value.
\<close>

record Principal =
  p_id :: uuid
  p_email :: string
  p_role :: string

text \<open>
  The verify callback of the strategy: the identity is looked up in the store (not in the
  cache) by the id of the token's payload, soft-deleted rows excluded, and is passed on
  only when it is found and not blocked.
\<close>

definition jwt_verify_callback :: "State \<Rightarrow> uuid \<Rightarrow> Principal option" where
  "jwt_verify_callback s payload_id =
     (case findById s payload_id False of
        None \<Rightarrow> None
      | Some u \<Rightarrow>
          if \<not> isBlocked u
          then Some \<lparr>p_id = id' u, p_email = email u, p_role = role_value (role u)\<rparr>
          else None)"

text \<open>
  \<^verbatim>\<open>AuthMiddleware.authenticate()\<close>: the strategy accepts a bearer token signed with
  \<^verbatim>\<open>JWT_SECRET\<close> whose \<^verbatim>\<open>exp\<close> has not passed and hands its payload to the callback.
\<close>

definition authenticate :: "State \<Rightarrow> timestamp \<Rightarrow> token \<Rightarrow> Principal option" where
  "authenticate s now bearer =
     (case bearer of
        Opaque x \<Rightarrow> None
      | Jwt key i e r iat exp \<Rightarrow>
          if key = JWT_SECRET \<and> now div 1000 < exp then jwt_verify_callback s i else None)"

datatype response = Next | Status401 | Status403

text \<open>\<^verbatim>\<open>RBACMiddleware.checkRole(roles)\<close>, applied to \<^verbatim>\<open>req.user\<close>.\<close>

definition checkRole :: "string list \<Rightarrow> Principal option \<Rightarrow> response" where
  "checkRole roles req_user =
     (case req_user of
        None \<Rightarrow> Status401
      | Some u \<Rightarrow> if p_role u \<notin> set roles then Status403 else Next)"

text \<open>
  A route guarded as \<^verbatim>\<open>AuthMiddleware.authenticate(), RBACMiddleware.checkRole(roles)\<close>:
  the role check runs only on a request the strategy has accepted.
\<close>

definition guarded_route :: "State \<Rightarrow> timestamp \<Rightarrow> string list \<Rightarrow> token \<Rightarrow> response" where
  "guarded_route s now roles bearer =
     (case authenticate s now bearer of
        None \<Rightarrow> Status401
      | Some p \<Rightarrow> checkRole roles (Some p))"

section \<open>Security configuration: the failed-attempt counter\<close>

text \<open>
  \<^verbatim>\<open>SecurityConfig\<close> keeps a static in-memory map from an identifier to the number of
  recorded failures and the instant of the last one. The auth service does not refer to it.
\<close>

type_synonym attemptCounts = "string \<rightharpoonup> (nat \<times> timestamp)"

definition MAX_LOGIN_ATTEMPTS :: nat where
  "MAX_LOGIN_ATTEMPTS = 5"

definition LOCKOUT_DURATION :: nat where
  "LOCKOUT_DURATION = 15 * 60 * 1000"

definition getAttemptCount :: "attemptCounts \<Rightarrow> timestamp \<Rightarrow> string \<Rightarrow> nat \<times> attemptCounts" where
  "getAttemptCount m now identifier =
     (case m identifier of
        None \<Rightarrow> (0, m)
      | Some (n, stamp) \<Rightarrow>
          if int now - int stamp > int LOCKOUT_DURATION then (0, m(identifier := None)) else (n, m))"

definition incrementAttemptCount :: "attemptCounts \<Rightarrow> timestamp \<Rightarrow> string \<Rightarrow> attemptCounts" where
  "incrementAttemptCount m now identifier =
     (case getAttemptCount m now identifier of
        (current, m1) \<Rightarrow> m1(identifier \<mapsto> (current + 1, now)))"

definition resetAttemptCount :: "attemptCounts \<Rightarrow> string \<Rightarrow> attemptCounts" where
  "resetAttemptCount m identifier = m(identifier := None)"

definition checkBruteForceAttempts :: "attemptCounts \<Rightarrow> timestamp \<Rightarrow> string \<Rightarrow> nat \<Rightarrow> bool \<times> attemptCounts" where
  "checkBruteForceAttempts m now identifier maxAttempts =
     (case getAttemptCount m now identifier of (attempts, m1) \<Rightarrow> (attempts \<ge> maxAttempts, m1))"

definition recordFailedAttempt :: "attemptCounts \<Rightarrow> timestamp \<Rightarrow> string \<Rightarrow> attemptCounts" where
  "recordFailedAttempt m now identifier = incrementAttemptCount m now identifier"

definition clearFailedAttempts :: "attemptCounts \<Rightarrow> string \<Rightarrow> attemptCounts" where
  "clearFailedAttempts m identifier = resetAttemptCount m identifier"

section \<open>Clients and scenarios\<close>

text \<open>A client that calls \<open>login\<close> for one email once per listed instant and password.\<close>

fun login_attempts ::
  "State \<Rightarrow> string \<Rightarrow> (timestamp \<times> string) list \<Rightarrow> (error + AuthResult) list \<times> State" where
  "login_attempts s em [] = ([], s)"
| "login_attempts s em ((t, password) # rest) =
     (case login s t em password of
        (r, s1) \<Rightarrow> (case login_attempts s1 em rest of (rs, s2) \<Rightarrow> (r # rs, s2)))"

text \<open>
  A sequential execution of the auth operations: each call is made at its own instant,
  and the state it leaves is the state the next one finds.
\<close>

datatype call =
    Register string string string string Role
  | Login string string
  | Refresh token
  | Logout token

fun exec :: "State \<Rightarrow> timestamp \<Rightarrow> call \<Rightarrow> State" where
  "exec s now (Register nm em password phone rl) = snd (register s now nm em password phone rl)"
| "exec s now (Login em password) = snd (login s now em password)"
| "exec s now (Refresh v) = snd (refreshToken s now v)"
| "exec s now (Logout v) = snd (logout s v)"

fun run :: "State \<Rightarrow> (timestamp \<times> call) list \<Rightarrow> State" where
  "run s [] = s"
| "run s ((t, c) # rest) = run (exec s t c) rest"

text \<open>The second a signed token was issued in (its \<^verbatim>\<open>iat\<close> claim).\<close>

fun iat_of :: "token \<Rightarrow> nat option" where
  "iat_of (Jwt key i e r iat exp) = Some iat"
| "iat_of (Opaque x) = None"

text \<open>A host on UTC: the offset is zero throughout.\<close>

definition utc_zone :: TimeZone where
  "utc_zone = \<lparr>LocalTZA_utc = (\<lambda>t. 0), LocalTZA_local = (\<lambda>t. 0)\<rparr>"


text \<open>
  The empty system on a UTC host, the same on the Central European host, and the UTC
  system after Alice has registered at second 1000.
\<close>

definition empty_state :: State where
  "empty_state = \<lparr>users = [], refresh_tokens = [], activity_logs = [], redis = Map.empty,
                  uuid_next = 1, host_zone = utc_zone\<rparr>"


definition alice_registered :: State where
  "alice_registered =
     snd (register empty_state 1000000 ''Alice'' ''alice@x.com'' ''Str0ng!Pass'' ''0123456789'' STUDENT)"

definition alice_token :: token where
  "alice_token = Jwt JWT_REFRESH_SECRET 1 ''alice@x.com'' STUDENT 1000 605800"

text \<open>Alice refreshes 400 ms after registering, within the same second.\<close>

definition alice_refreshed :: State where
  "alice_refreshed = snd (refreshToken alice_registered 1000400 alice_token)"

text \<open>An administrator blocks Alice half a second after she registered.\<close>

definition alice_blocked :: State where
  "alice_blocked = snd (blockUser alice_registered 1500000 1)"

text \<open>Five failed logins for Alice's email, one per second.\<close>

definition five_wrong_passwords :: "(timestamp \<times> string) list" where
  "five_wrong_passwords =
     [(2000000, ''wrong-pass-1''), (2001000, ''wrong-pass-2''), (2002000, ''wrong-pass-3''),
      (2003000, ''wrong-pass-4''), (2004000, ''wrong-pass-5'')]"

definition alice_after_failures :: State where
  "alice_after_failures = snd (login_attempts alice_registered ''alice@x.com'' five_wrong_passwords)"

text \<open>Alice's row, and what her successful calls return.\<close>

definition alice :: User where
  "alice = \<lparr>id' = 1, createdAt = 1000000, updatedAt = 1000000, deletedAt = None,
            name = ''Alice'', email = ''alice@x.com'', passwordHash = Bcrypt ''Str0ng!Pass'',
            phoneNumber = ''0123456789'', dateOfBirth = [], country = [], gender = OTHER,
            role = STUDENT, profilePictureUrl = None, enrolledCourseIds = [],
            isBlocked = False, assignedHrId = None\<rparr>"

definition alice_session :: "nat \<Rightarrow> AuthResult" where
  "alice_session sec =
     \<lparr>res_user = toDTO alice,
      res_accessToken = Jwt JWT_SECRET 1 ''alice@x.com'' STUDENT sec (sec + 3600),
      res_refreshToken = Jwt JWT_REFRESH_SECRET 1 ''alice@x.com'' STUDENT sec (sec + 604800)\<rparr>"

text \<open>
  The case normalization of an email address that the specification speaks of (ASCII
  letters to lower case). The services do not normalize emails; the definition only states
  when two email arguments are equal after case normalization.
\<close>

definition normalize_email_case :: "string \<Rightarrow> string" where
  "normalize_email_case str =
     map (\<lambda>c. if 65 \<le> (of_char c :: nat) \<and> (of_char c :: nat) \<le> 90
               then char_of (of_char c + 32 :: nat) else c) str"

text \<open>Five failures recorded by the counter of the security configuration, one per second.\<close>

definition five_recorded_failures :: attemptCounts where
  "five_recorded_failures =
     fold (\<lambda>t m. recordFailedAttempt m t ''alice@x.com'')
          [2000000, 2001000, 2002000, 2003000, 2004000] Map.empty"

section \<open>Facts about the repositories and the auth flows\<close>

lemma single_Some_mem: "single xs = Some x \<Longrightarrow> x \<in> set xs"
  by (auto simp: single_def split: list.splits)


lemma findById_Some:
  "findById s i False = Some u \<Longrightarrow> u \<in> set (users s) \<and> id' u = i \<and> deletedAt u = None"
  using single_Some_mem[of "filter (\<lambda>u. id' u = i \<and> (False \<or> deletedAt u = None)) (users s)" u]
  by (simp add: findById_def)

lemma activityLogRepo_log_frame:
  "users (activityLogRepo_log s now uid act rtype rid) = users s
   \<and> refresh_tokens (activityLogRepo_log s now uid act rtype rid) = refresh_tokens s
   \<and> redis (activityLogRepo_log s now uid act rtype rid) = redis s"
  by (simp add: activityLogRepo_log_def uuidv4_def)

lemma generateTokens_Inr:
  assumes "generateTokens s now u = (Inr out, s')"
  shows "\<exists>r. refresh_tokens s' = refresh_tokens s @ [r]
             \<and> token r = res_refreshToken out
             \<and> expiresAt r = setDate_plus_7 (host_zone s) now
             \<and> userId r = id' u \<and> createdAt r = now \<and> deletedAt r = None"
    and "users s' = users s" and "redis s' = redis s" and "host_zone s' = host_zone s"
    and "res_user out = toDTO u"
  using assms
  by (auto simp: generateTokens_def refreshTokenRepo_create_def uuidv4_def Let_def
           split: if_splits)

lemma userRepo_create_Inr:
  assumes "userRepo_create s now d = (Inr u, s')"
  shows "users s' = users s @ [u]" and "refresh_tokens s' = refresh_tokens s"
    and "email u = email d" and "deletedAt u = None" and "email d \<notin> email ` set (users s)"
    and "redis s' = redis s" and "host_zone s' = host_zone s"
  using assms
  by (auto simp: userRepo_create_def uuidv4_def Let_def split: if_splits)

lemma register_Inr:
  assumes "register s now nm em pw ph rl = (Inr out, s')"
  shows "\<exists>u r. users s' = users s @ [u] \<and> email u = em \<and> deletedAt u = None
               \<and> em \<notin> email ` set (users s)
               \<and> refresh_tokens s' = refresh_tokens s @ [r]
               \<and> token r = res_refreshToken out
               \<and> expiresAt r = setDate_plus_7 (host_zone s) now
               \<and> userId r = id' u \<and> res_user out = toDTO u"
proof -
  from assms obtain u s1 where
    c: "userRepo_create s now
          \<lparr>id' = 0, createdAt = 0, updatedAt = 0, deletedAt = None,
           name = nm, email = em, passwordHash = bcrypt_hash pw,
           phoneNumber = ph, dateOfBirth = [], country = [], gender = OTHER,
           role = rl, profilePictureUrl = None, enrolledCourseIds = [],
           isBlocked = False, assignedHrId = None\<rparr> = (Inr u, s1)"
    and g: "\<exists>s2. generateTokens s1 now u = (Inr out, s2)
            \<and> s' = activityLogRepo_log s2 now (id' u) ''register'' ''user'' (Some (id' u))"
    by (auto simp: register_def split: option.splits if_splits sum.splits prod.splits)
  from g obtain s2 where g2: "generateTokens s1 now u = (Inr out, s2)"
    and s': "s' = activityLogRepo_log s2 now (id' u) ''register'' ''user'' (Some (id' u))" by blast
  from userRepo_create_Inr[OF c] generateTokens_Inr[OF g2] s' activityLogRepo_log_frame
  show ?thesis by (auto simp: )
qed


lemma refreshToken_Inr:
  assumes "refreshToken s now v = (Inr out, s')"
  shows "\<exists>u r old. findByToken s v = Some old \<and> \<not> expiresAt old < int now
               \<and> findById s (userId old) False = Some u
               \<and> users s' = users s
               \<and> refresh_tokens s' = filter (\<lambda>x. token x \<noteq> v) (refresh_tokens s) @ [r]
               \<and> token r = res_refreshToken out
               \<and> expiresAt r = setDate_plus_7 (host_zone s) now
               \<and> userId r = id' u \<and> res_user out = toDTO u"
proof -
  from assms obtain old u where f: "findByToken s v = Some old" and ne: "\<not> expiresAt old < int now"
    and fu: "findById s (userId old) False = Some u"
    and g: "generateTokens (snd (invalidateToken s v)) now u = (Inr out, s')"
    by (auto simp: refreshToken_def split: option.splits if_splits)
  from generateTokens_Inr[OF g] f ne fu
  show ?thesis by (auto simp: invalidateToken_def)
qed

lemma register_existing_email:
  "findByEmail s em = Some u \<Longrightarrow> register s now nm em pw ph rl = (Inl UserAlreadyExists, s)"
  by (simp add: register_def)

lemma refreshToken_consumes:
  assumes "refreshToken s now v = (Inr out, s')" and "res_refreshToken out \<noteq> v"
  shows "findByToken s' v = None \<and> refreshToken s' now' v = (Inl InvalidRefreshToken, s')"
proof -
  from refreshToken_Inr[OF assms(1)] obtain r where
    "refresh_tokens s' = filter (\<lambda>x. token x \<noteq> v) (refresh_tokens s) @ [r]"
    and "token r = res_refreshToken out" by blast
  with assms(2) have "filter (\<lambda>x. token x = v) (refresh_tokens s') = []"
    by (auto simp: filter_empty_conv)
  then have "findByToken s' v = None" by (simp add: findByToken_def single_def)
  then show ?thesis by (simp add: refreshToken_def)
qed

text \<open>
  Refresh token values enter the store only through \<open>generateTokens\<close>, and each carries
  the second it was signed in. A value that has been consumed therefore stays out of the
  store through every later call that is not made in the second recorded in the value.
\<close>


lemma generateTokens_tokens:
  "token ` set (refresh_tokens (snd (generateTokens s now u)))
     \<subseteq> insert (jwt_sign (id' u, email u, role u) JWT_REFRESH_SECRET JWT_REFRESH_EXPIRES_IN now)
          (token ` set (refresh_tokens s))"
  by (auto simp: generateTokens_def refreshTokenRepo_create_def uuidv4_def Let_def)

lemma userRepo_create_tokens:
  "refresh_tokens (snd (userRepo_create s now d)) = refresh_tokens s"
  by (simp add: userRepo_create_def uuidv4_def Let_def)

lemma jwt_sign_issued: "jwt_sign p k l now \<in> {w. iat_of w = Some (now div 1000)}"
  by (cases p) (auto simp: jwt_sign_def)

lemma generateTokens_tokens_second:
  "token ` set (refresh_tokens (snd (generateTokens s now u)))
     \<subseteq> token ` set (refresh_tokens s) \<union> {w. iat_of w = Some (now div 1000)}"
  using generateTokens_tokens[of s now u] jwt_sign_issued by fastforce

lemma exec_tokens:
  "token ` set (refresh_tokens (exec s now c))
     \<subseteq> token ` set (refresh_tokens s) \<union> {w. iat_of w = Some (now div 1000)}"
proof (cases c)
  case (Register nm em pw ph rl)
  show ?thesis
  proof (cases "findByEmail s em = None \<and> validatePassword pw")
    case False
    then show ?thesis using Register by (auto simp: register_def split: option.splits)
  next
    case True
    let ?d = "\<lparr>id' = 0, createdAt = 0, updatedAt = 0, deletedAt = None,
           name = nm, email = em, passwordHash = bcrypt_hash pw,
           phoneNumber = ph, dateOfBirth = [], country = [], gender = OTHER,
           role = rl, profilePictureUrl = None, enrolledCourseIds = [],
           isBlocked = False, assignedHrId = None\<rparr>"
    obtain r1 s1 where c: "userRepo_create s now ?d = (r1, s1)" by fastforce
    then have t1: "refresh_tokens s1 = refresh_tokens s"
      using userRepo_create_tokens[of s now ?d] by simp
    show ?thesis
    proof (cases r1)
      case (Inl e)
      with True c t1 Register show ?thesis by (simp add: register_def)
    next
      case (Inr u)
      obtain r2 s2 where g: "generateTokens s1 now u = (r2, s2)" by fastforce
      from generateTokens_tokens_second[of s1 now u] g t1
      have "token ` set (refresh_tokens s2)
              \<subseteq> token ` set (refresh_tokens s) \<union> {w. iat_of w = Some (now div 1000)}" by simp
      with True c Inr g Register show ?thesis
        by (cases r2) (simp_all add: register_def activityLogRepo_log_def uuidv4_def)
    qed
  qed
next
  case (Login em pw)
  show ?thesis
  proof (cases "findByEmail s em")
    case None
    with Login show ?thesis by (simp add: login_def)
  next
    case (Some u)
    obtain r2 s2 where g: "generateTokens s now u = (r2, s2)" by fastforce
    from generateTokens_tokens_second[of s now u] g
    have "token ` set (refresh_tokens s2)
            \<subseteq> token ` set (refresh_tokens s) \<union> {w. iat_of w = Some (now div 1000)}" by simp
    with Some g Login show ?thesis
      by (cases r2) (auto simp: login_def activityLogRepo_log_def uuidv4_def)
  qed
next
  case (Refresh v)
  have f: "token ` set (refresh_tokens (snd (invalidateToken s v))) \<subseteq> token ` set (refresh_tokens s)"
    by (auto simp: invalidateToken_def)
  show ?thesis
  proof (cases "findByToken s v")
    case None
    with Refresh show ?thesis by (simp add: refreshToken_def)
  next
    case (Some old)
    show ?thesis
    proof (cases "findById s (userId old) False")
      case None
      with Some Refresh f show ?thesis by (auto simp: refreshToken_def)
    next
      case (Some u)
      from generateTokens_tokens_second[of "snd (invalidateToken s v)" now u] f
      have "token ` set (refresh_tokens (snd (generateTokens (snd (invalidateToken s v)) now u)))
              \<subseteq> token ` set (refresh_tokens s) \<union> {w. iat_of w = Some (now div 1000)}" by blast
      with \<open>findByToken s v = Some old\<close> Some Refresh f show ?thesis
        by (auto simp: refreshToken_def)
    qed
  qed
next
  case (Logout v)
  then show ?thesis by (auto simp: logout_def invalidateToken_def)
qed

lemma run_never_reissues:
  "v \<notin> token ` set (refresh_tokens s)
   \<Longrightarrow> \<forall>tc \<in> set trace. iat_of v \<noteq> Some (fst tc div 1000)
   \<Longrightarrow> v \<notin> token ` set (refresh_tokens (run s trace))"
proof (induction trace arbitrary: s)
  case Nil
  then show ?case by simp
next
  case (Cons tc trace)
  obtain t c where tc: "tc = (t, c)" by (cases tc)
  from Cons.prems(2) tc have "v \<notin> {w. iat_of w = Some (t div 1000)}" by simp
  with exec_tokens[of s t c] Cons.prems(1)
  have "v \<notin> token ` set (refresh_tokens (exec s t c))" by blast
  from Cons.IH[OF this] Cons.prems(2) tc show ?case by simp
qed


lemma findByToken_absent:
  "v \<notin> token ` set (refresh_tokens s) \<Longrightarrow> findByToken s v = None"
proof -
  assume "v \<notin> token ` set (refresh_tokens s)"
  then have "filter (\<lambda>r. token r = v) (refresh_tokens s) = []"
    by (auto simp: filter_empty_conv)
  then show ?thesis by (simp add: findByToken_def single_def)
qed

lemma rotation_is_final_outside_the_issuing_second:
  assumes "refreshToken s now v = (Inr out, s')"
    and "iat_of v \<noteq> Some (now div 1000)"
    and "\<forall>tc \<in> set trace. iat_of v \<noteq> Some (fst tc div 1000)"
  shows "refreshToken (run s' trace) t' v = (Inl InvalidRefreshToken, run s' trace)"
proof -
  from assms(1) obtain old u where
    g: "generateTokens (snd (invalidateToken s v)) now u = (Inr out, s')"
    by (auto simp: refreshToken_def split: option.splits if_splits)
  have "v \<notin> token ` set (refresh_tokens (snd (invalidateToken s v)))"
    by (auto simp: invalidateToken_def)
  moreover from assms(2) have "v \<notin> {w. iat_of w = Some (now div 1000)}" by simp
  ultimately have "v \<notin> token ` set (refresh_tokens s')"
    using generateTokens_tokens_second[of "snd (invalidateToken s v)" now u] g by auto
  from run_never_reissues[OF this assms(3)]
  have "findByToken (run s' trace) v = None" by (rule findByToken_absent)
  then show ?thesis by (simp add: refreshToken_def)
qed

section \<open>The scenarios, evaluated\<close>

lemmas eval_defs = findByEmail_def findById_def findByToken_def single_def userRepo_create_def
  userRepo_update_def uuidv4_def refreshTokenRepo_create_def invalidateToken_def
  activityLogRepo_log_def userRepo_blockUser_def cache_get_def cache_set_def cache_del_def
  register_def login_def refreshToken_def generateTokens_def validatePassword_def toDTO_def
  jwt_sign_def bcrypt_hash_def bcrypt_compare_def JWT_EXPIRES_IN_def JWT_REFRESH_EXPIRES_IN_def
  setDate_plus_7_def LocalTime_def UTC_def msPerDay_def utc_zone_def
  getUserById_def blockUser_def empty_state_def alice_def alice_session_def
  alice_token_def Let_def

lemma register_alice:
  "register empty_state 1000000 ''Alice'' ''alice@x.com'' ''Str0ng!Pass'' ''0123456789'' STUDENT
     = (Inr (alice_session 1000), alice_registered)"
  by (simp add: alice_registered_def eval_defs)

lemma alice_registered_eq:
  "alice_registered =
     \<lparr>users = [alice],
      refresh_tokens = [\<lparr>id' = 2, createdAt = 1000000, updatedAt = 1000000, deletedAt = None,
                         userId = 1, token = alice_token, expiresAt = 605800000\<rparr>],
      activity_logs = [\<lparr>id' = 3, createdAt = 1000000, updatedAt = 1000000, deletedAt = None,
                        log_userId = 1, action = ''register'', resourceType = ''user'',
                        resourceId = Some 1\<rparr>],
      redis = Map.empty, uuid_next = 4, host_zone = utc_zone\<rparr>"
  by (simp add: alice_registered_def eval_defs)

lemma refresh_alice_same_second:
  "refreshToken alice_registered 1000400 alice_token = (Inr (alice_session 1000), alice_refreshed)"
  by (simp add: alice_refreshed_def alice_registered_eq eval_defs)

lemma alice_refreshed_eq:
  "alice_refreshed =
     \<lparr>users = [alice],
      refresh_tokens = [\<lparr>id' = 4, createdAt = 1000400, updatedAt = 1000400, deletedAt = None,
                         userId = 1, token = alice_token, expiresAt = 605800400\<rparr>],
      activity_logs = [\<lparr>id' = 3, createdAt = 1000000, updatedAt = 1000000, deletedAt = None,
                        log_userId = 1, action = ''register'', resourceType = ''user'',
                        resourceId = Some 1\<rparr>],
      redis = Map.empty, uuid_next = 5, host_zone = utc_zone\<rparr>"
  by (simp add: alice_refreshed_def alice_registered_eq eval_defs)

lemma alice_blocked_eq:
  "alice_blocked =
     \<lparr>users = [alice\<lparr>isBlocked := True, updatedAt := 1500000\<rparr>],
      refresh_tokens = [\<lparr>id' = 2, createdAt = 1000000, updatedAt = 1000000, deletedAt = None,
                         userId = 1, token = alice_token, expiresAt = 605800000\<rparr>],
      activity_logs = [\<lparr>id' = 3, createdAt = 1000000, updatedAt = 1000000, deletedAt = None,
                        log_userId = 1, action = ''register'', resourceType = ''user'',
                        resourceId = Some 1\<rparr>,
                       \<lparr>id' = 4, createdAt = 1500000, updatedAt = 1500000, deletedAt = None,
                        log_userId = 1, action = ''block_user'', resourceType = ''user'',
                        resourceId = Some 1\<rparr>],
      redis = Map.empty, uuid_next = 5, host_zone = utc_zone\<rparr>"
  by (simp add: alice_blocked_def alice_registered_eq eval_defs)

lemma counter_reports_lockout_after_five:
  "fst (checkBruteForceAttempts five_recorded_failures 2005000 ''alice@x.com'' MAX_LOGIN_ATTEMPTS) = True
   \<and> fst (checkBruteForceAttempts five_recorded_failures (2004000 + LOCKOUT_DURATION + 1)
            ''alice@x.com'' MAX_LOGIN_ATTEMPTS) = False"
  by (simp add: five_recorded_failures_def checkBruteForceAttempts_def getAttemptCount_def
        recordFailedAttempt_def incrementAttemptCount_def MAX_LOGIN_ATTEMPTS_def LOCKOUT_DURATION_def)

section \<open>Claims\<close>

subsection \<open>C1: a consumed refresh token is not accepted again\<close>

text \<open>
  Claim C1 asks that, once \<open>refreshToken v\<close> has succeeded, every later \<open>refreshToken v\<close>
  fails with \<^verbatim>\<open>Invalid refresh token\<close>. The flow deletes the record of \<open>v\<close> and stores the
  value that \<open>generateTokens\<close> signs next; that value carries the issue time in whole
  seconds only. Alice registers at 1000000 ms and receives \<open>alice_token\<close>; she refreshes at
  1000400 ms, in the same second: the call succeeds, and the pair it returns holds
  \<open>alice_token\<close> again, which is stored anew. A further refresh with the same value
  succeeds as well, be it made at 1000800 ms or, instead, at 5000000 ms. (When the call is
  not made in the second the value was signed in, the value is gone for good.)
\<close>

theorem refresh_token_replayed_within_one_second:
  "fst (register empty_state 1000000 ''Alice'' ''alice@x.com'' ''Str0ng!Pass'' ''0123456789'' STUDENT)
     = Inr (alice_session 1000)
   \<and> res_refreshToken (alice_session 1000) = alice_token
   \<and> fst (refreshToken alice_registered 1000400 alice_token) = Inr (alice_session 1000)
   \<and> fst (refreshToken alice_refreshed 1000800 alice_token) = Inr (alice_session 1000)
   \<and> fst (refreshToken alice_refreshed 5000000 alice_token) = Inr (alice_session 5000)"
  by (simp add: register_alice refresh_alice_same_second)
     (simp add: alice_refreshed_eq eval_defs)

subsection \<open>C2: lockout after failed logins\<close>

text \<open>
  Claim C2 asks that after \<open>MAX_LOGIN_ATTEMPTS\<close> consecutive failed logins within the
  lockout window the next login fails with a lockout error even with the correct password.
  The security configuration holds the limit of five attempts, the lockout duration and the
  counter, and \<open>login\<close> calls none of them. Five logins for Alice's email with wrong
  passwords, one per second, each fail with \<^verbatim>\<open>Invalid credentials\<close>; the counter, had the
  five failures been recorded, reports the email as locked one second later; the login
  with her password at that instant succeeds.
\<close>

theorem login_after_max_failures_counterexample:
  "length five_wrong_passwords = MAX_LOGIN_ATTEMPTS
   \<and> fst (login_attempts alice_registered ''alice@x.com'' five_wrong_passwords)
       = [Inl InvalidCredentials, Inl InvalidCredentials, Inl InvalidCredentials,
          Inl InvalidCredentials, Inl InvalidCredentials]
   \<and> 2005000 - 2000000 < LOCKOUT_DURATION
   \<and> fst (checkBruteForceAttempts five_recorded_failures 2005000 ''alice@x.com'' MAX_LOGIN_ATTEMPTS)
       = True
   \<and> fst (login alice_after_failures 2005000 ''alice@x.com'' ''Str0ng!Pass'')
       = Inr (alice_session 2005)"
proof -
  have "fst (checkBruteForceAttempts five_recorded_failures 2005000 ''alice@x.com'' MAX_LOGIN_ATTEMPTS)
          = True"
    by (simp add: five_recorded_failures_def checkBruteForceAttempts_def getAttemptCount_def
          recordFailedAttempt_def incrementAttemptCount_def MAX_LOGIN_ATTEMPTS_def
          LOCKOUT_DURATION_def)
  then show ?thesis
    by (simp add: alice_after_failures_def five_wrong_passwords_def MAX_LOGIN_ATTEMPTS_def
          LOCKOUT_DURATION_def alice_registered_eq eval_defs)
qed

subsection \<open>C3: refresh of a blocked identity\<close>

text \<open>
  Claim C3 asks that \<open>refreshToken\<close> fails with \<^verbatim>\<open>Account is blocked\<close>, and issues nothing,
  when the owner of the token was blocked after the token was issued. \<open>refreshToken\<close> looks
  the owner up and tests only that it exists; \<open>login\<close> and the verify callback of the JWT
  strategy test the blocked flag. Alice is blocked at 1500000 ms; her refresh at 2000000 ms
  with the token of her registration succeeds and stores a new refresh token.
\<close>

theorem blocked_identity_still_refreshes:
  "fst (blockUser alice_registered 1500000 1) = Inr True
   \<and> map isBlocked (users alice_blocked) = [True]
   \<and> fst (refreshToken alice_blocked 2000000 alice_token) =
       Inr \<lparr>res_user = toDTO (alice\<lparr>isBlocked := True, updatedAt := 1500000\<rparr>),
            res_accessToken = Jwt JWT_SECRET 1 ''alice@x.com'' STUDENT 2000 5600,
            res_refreshToken = Jwt JWT_REFRESH_SECRET 1 ''alice@x.com'' STUDENT 2000 606800\<rparr>
   \<and> map token (refresh_tokens (snd (refreshToken alice_blocked 2000000 alice_token))) =
       [Jwt JWT_REFRESH_SECRET 1 ''alice@x.com'' STUDENT 2000 606800]"
  by (simp add: alice_blocked_eq alice_registered_eq eval_defs)

subsection \<open>C4: registering an email twice\<close>

text \<open>
  Claim C4 asks that a second \<open>register\<close> fails with \<^verbatim>\<open>User already exists with this email\<close>
  when its email equals the first one's after case normalization. The lookup and the
  uniqueness constraint compare the strings as they are. After Alice has registered
  \<^verbatim>\<open>alice@x.com\<close>, a registration of \<^verbatim>\<open>Alice@x.com\<close> succeeds and adds a second identity.
\<close>

theorem register_email_case_counterexample:
  "normalize_email_case ''Alice@x.com'' = normalize_email_case ''alice@x.com''
   \<and> fst (register empty_state 1000000 ''Alice'' ''alice@x.com'' ''Str0ng!Pass'' ''0123456789'' STUDENT)
       = Inr (alice_session 1000)
   \<and> map deletedAt (users alice_registered) = [None]
   \<and> fst (register alice_registered 3000000 ''Alice'' ''Alice@x.com'' ''Str0ng!Pass'' ''0123456789'' STUDENT)
       \<noteq> Inl UserAlreadyExists
   \<and> map email (users (snd (register alice_registered 3000000 ''Alice'' ''Alice@x.com''
                               ''Str0ng!Pass'' ''0123456789'' STUDENT)))
       = [''alice@x.com'', ''Alice@x.com'']"
proof -
  have "normalize_email_case ''Alice@x.com'' = normalize_email_case ''alice@x.com''" by code_simp
  then show ?thesis
    by (simp add: register_alice) (simp add: alice_registered_eq eval_defs)
qed

text \<open>
  Claim C4, as the code has it: for every two \<open>register\<close> calls with the same email
  string (no case normalization is applied), if the first succeeds, it has added exactly
  one identity, and the second, issued on the state the first has left or on any later
  state in which the lookup by that email still finds an active identity (one that has not
  been soft-deleted), fails with \<^verbatim>\<open>User already exists with this email\<close> whatever its
  other arguments are, and leaves the state unchanged: no identity is created.
\<close>

theorem second_register_same_email_fails:
  "(register s now nm em pw ph rl = (Inr out, s') \<longrightarrow>
      findByEmail s' em \<noteq> None
      \<and> length (users s') = Suc (length (users s))
      \<and> register s' now' nm' em pw' ph' rl' = (Inl UserAlreadyExists, s'))
   \<and> (findByEmail later em \<noteq> None \<longrightarrow>
      register later now' nm' em pw' ph' rl' = (Inl UserAlreadyExists, later))"
proof (intro conjI impI)
  assume ok: "register s now nm em pw ph rl = (Inr out, s')"
  from register_Inr[OF ok] obtain u where
    us: "users s' = users s @ [u]" and eu: "email u = em" and du: "deletedAt u = None"
    and fresh: "em \<notin> email ` set (users s)" by blast
  from fresh have "filter (\<lambda>w. email w = em \<and> deletedAt w = None) (users s) = []"
    by (auto simp: filter_empty_conv)
  with us eu du have f: "findByEmail s' em = Some u"
    by (simp add: findByEmail_def single_def)
  then show "findByEmail s' em \<noteq> None" by simp
  from us show "length (users s') = Suc (length (users s))" by simp
  from f show "register s' now' nm' em pw' ph' rl' = (Inl UserAlreadyExists, s')"
    by (rule register_existing_email)
next
  assume "findByEmail later em \<noteq> None"
  then obtain u where "findByEmail later em = Some u" by blast
  then show "register later now' nm' em pw' ph' rl' = (Inl UserAlreadyExists, later)"
    by (rule register_existing_email)
qed

theorem second_register_same_email_fails_witness:
  "findByEmail alice_registered ''alice@x.com'' \<noteq> None
   \<and> length (users alice_registered) = Suc (length (users empty_state))
   \<and> register alice_registered 3000000 ''Alicia'' ''alice@x.com'' ''0ther!Pass'' ''0987654321'' INSTRUCTOR
       = (Inl UserAlreadyExists, alice_registered)
   \<and> register alice_blocked 3000000 ''Alicia'' ''alice@x.com'' ''0ther!Pass'' ''0987654321'' INSTRUCTOR
       = (Inl UserAlreadyExists, alice_blocked)"
proof -
  have h: "findByEmail alice_blocked ''alice@x.com'' \<noteq> None"
    by (simp add: alice_blocked_eq eval_defs)
  from second_register_same_email_fails[where s = empty_state and now = 1000000
        and nm = "''Alice''" and em = "''alice@x.com''" and pw = "''Str0ng!Pass''"
        and ph = "''0123456789''" and rl = STUDENT and out = "alice_session 1000"
        and s' = alice_registered and later = alice_blocked and now' = 3000000
        and nm' = "''Alicia''" and pw' = "''0ther!Pass''" and ph' = "''0987654321''"
        and rl' = INSTRUCTOR]
    register_alice h
  show ?thesis by blast
qed

subsection \<open>C5: the role check\<close>

text \<open>
  Claim C5: the role check is a function of the resolved role and the required roles alone;
  on an authenticated request it lets the request pass exactly when the role is a member of
  the required roles, and answers 403 otherwise (401 when no identity is attached). In
  particular the role \<^verbatim>\<open>student\<close> is denied and the role \<^verbatim>\<open>admin\<close> is allowed for the required
  roles \<^verbatim>\<open>admin\<close>, \<^verbatim>\<open>hr\<close>.
\<close>

theorem checkRole_allows_exactly_members:
  "checkRole roles (Some u) = (if p_role u \<in> set roles then Next else Status403)
   \<and> checkRole roles None = Status401
   \<and> checkRole [''admin'', ''hr''] (Some \<lparr>p_id = i, p_email = e, p_role = ''student''\<rparr>) = Status403
   \<and> checkRole [''admin'', ''hr''] (Some \<lparr>p_id = i, p_email = e, p_role = ''admin''\<rparr>) = Next"
  by (simp add: checkRole_def)

subsection \<open>C6: password validation in register\<close>

text \<open>
  Claim C6 asks that \<open>register\<close> validates the password before any step on the credential
  store, so that a short password together with a duplicate email is reported as a weak
  password. \<open>register\<close> looks the email up first. With Alice registered, a registration
  of her email with the password \<^verbatim>\<open>short\<close> fails with \<^verbatim>\<open>User already exists with this email\<close>.
\<close>

theorem register_duplicate_before_password_counterexample:
  "\<not> validatePassword ''short''
   \<and> fst (register alice_registered 3000000 ''Alice'' ''alice@x.com'' ''short'' ''0123456789'' STUDENT)
       = Inl UserAlreadyExists
   \<and> fst (register alice_registered 3000000 ''Alice'' ''alice@x.com'' ''short'' ''0123456789'' STUDENT)
       \<noteq> Inl PasswordTooShort"
  by (simp add: alice_registered_eq eval_defs)

text \<open>
  Claim C6, as the code has it: \<open>register\<close> first looks the email up, then validates the
  password (at least 8 characters), both before any write to the credential store. For
  every input whose password is shorter than 8 characters, \<open>register\<close> creates no identity
  and leaves the state unchanged; it fails with \<^verbatim>\<open>Password must be at least 8 characters long\<close>
  when no active identity has the email, and with \<^verbatim>\<open>User already exists with this email\<close>
  when one has.
\<close>

theorem register_short_password:
  assumes "\<not> validatePassword pw"
  shows "register s now nm em pw ph rl =
           (Inl (if findByEmail s em = None then PasswordTooShort else UserAlreadyExists), s)"
  using assms by (auto simp: register_def split: option.splits)

theorem register_short_password_witness:
  "register alice_registered 3000000 ''Bob'' ''bob@x.com'' ''short'' ''0123456789'' STUDENT
     = (Inl (if findByEmail alice_registered ''bob@x.com'' = None
             then PasswordTooShort else UserAlreadyExists), alice_registered)
   \<and> findByEmail alice_registered ''bob@x.com'' = None"
proof -
  have h: "\<not> validatePassword ''short''" by (simp add: validatePassword_def)
  have "findByEmail alice_registered ''bob@x.com'' = None"
    by (simp add: alice_registered_eq eval_defs)
  with register_short_password[OF h, of alice_registered 3000000 "''Bob''" "''bob@x.com''"
         "''0123456789''" STUDENT]
  show ?thesis by blast
qed

subsection \<open>C7: logout\<close>

text \<open>
  Claim C7: for every refresh token value and every state (the value stored, already
  removed, or never issued), \<open>logout\<close> succeeds and returns true, and running it twice
  leaves the same state as running it once. After it the value is not found, and the
  records of all other values are as before.
\<close>

theorem logout_succeeds_and_is_idempotent:
  "fst (logout s v) = True
   \<and> snd (logout (snd (logout s v)) v) = snd (logout s v)
   \<and> findByToken (snd (logout s v)) v = None
   \<and> filter (\<lambda>r. token r \<noteq> v) (refresh_tokens (snd (logout s v))) = filter (\<lambda>r. token r \<noteq> v) (refresh_tokens s)"
  by (simp add: logout_def invalidateToken_def findByToken_def single_def)

subsection \<open>C8: blocked and soft-deleted identities do not reach the role check\<close>

text \<open>
  Claim C8: when every stored row with the id of the presented access token is blocked or
  soft-deleted, token resolution rejects the request, and a guarded route answers 401
  without running the role check.
\<close>

theorem blocked_or_deleted_identity_is_rejected:
  assumes "\<forall>u \<in> set (users s). id' u = i \<longrightarrow> isBlocked u \<or> deletedAt u \<noteq> None"
  shows "authenticate s now (Jwt key i e r iat exp) = None
         \<and> guarded_route s now roles (Jwt key i e r iat exp) = Status401"
proof -
  have "jwt_verify_callback s i = None"
  proof (cases "findById s i False")
    case None
    then show ?thesis by (simp add: jwt_verify_callback_def)
  next
    case (Some u)
    from findById_Some[OF Some] assms have "isBlocked u" by auto
    with Some show ?thesis by (simp add: jwt_verify_callback_def)
  qed
  then show ?thesis by (simp add: authenticate_def guarded_route_def)
qed

theorem blocked_or_deleted_identity_is_rejected_witness:
  "authenticate alice_blocked 1600000 (Jwt JWT_SECRET 1 ''alice@x.com'' STUDENT 1000 4600) = None
   \<and> guarded_route alice_blocked 1600000 [''admin'', ''hr'', ''student'']
         (Jwt JWT_SECRET 1 ''alice@x.com'' STUDENT 1000 4600) = Status401"
proof -
  have h: "\<forall>u \<in> set (users alice_blocked). id' u = 1 \<longrightarrow> isBlocked u \<or> deletedAt u \<noteq> None"
    by (simp add: alice_blocked_eq)
  show ?thesis by (rule blocked_or_deleted_identity_is_rejected[OF h])
qed

subsection \<open>C9: what the identity cache holds\<close>

text \<open>
  Claim C9 asks that a cache entry holds the id, the role, the blocked flag and the deletion
  time only, and never the password hash. \<open>getUserById\<close> caches the row it has read.
  After Alice's row is fetched, the entry under her id is her whole row: name, email and
  password hash included.
\<close>

theorem cache_holds_password_hash_counterexample:
  "fst (getUserById alice_registered 3000000 1) = Inr (toDTO alice)
   \<and> redis (snd (getUserById alice_registered 3000000 1)) 1 = Some (alice, 6600000)
   \<and> passwordHash alice = Bcrypt ''Str0ng!Pass''
   \<and> name alice = ''Alice'' \<and> email alice = ''alice@x.com''"
  by (simp add: alice_registered_eq eval_defs)

text \<open>
  Claim C9, as the code has it: on a cache miss for an active identity, \<open>getUserById\<close>
  writes the complete stored row of the identity (every field, the password hash included)
  under the identity's key, for one hour, and changes nothing else; what it returns is the
  projection of the row without the password hash.
\<close>

theorem getUserById_caches_whole_row:
  assumes "cache_get s now i = None" and "findById s i False = Some u"
  shows "getUserById s now i =
           (Inr (toDTO u), s\<lparr>redis := (redis s)(i \<mapsto> (u, now + 3600 * 1000))\<rparr>)"
  using assms by (simp add: getUserById_def cache_set_def)

theorem getUserById_caches_whole_row_witness:
  "getUserById alice_registered 3000000 1 =
     (Inr (toDTO alice),
      alice_registered\<lparr>redis := (redis alice_registered)(1 \<mapsto> (alice, 3000000 + 3600 * 1000))\<rparr>)"
proof -
  have 1: "cache_get alice_registered 3000000 1 = None"
    by (simp add: alice_registered_eq cache_get_def)
  have 2: "findById alice_registered 1 False = Some alice"
    by (simp add: alice_registered_eq eval_defs)
  show ?thesis by (rule getUserById_caches_whole_row[OF 1 2])
qed

subsection \<open>C10: one new refresh token record per successful call\<close>




end
